theory Spec2Isabelle
  imports Main
begin

section \<open>The evm request handler of the Hardhat network provider\<close>

text \<open>
  The class \<open>EvmModule\<close> of \<^verbatim>\<open>provider/modules/evm.ts\<close> receives a method name and a
  positional parameter list, validates the parameters, checks the timestamps against the
  head block and calls the Node (\<^verbatim>\<open>HardhatNode\<close>). Each method of the class is one
  definition below, under the name it has in the source without the leading underscore.
  A thrown exception is the left summand of the result; the Node is passed in as a record
  of operations over its own state, and every call made to it is appended to a log.
\<close>

subsection \<open>Values, errors and results\<close>

text \<open>
  A positional parameter is a JSON value. A JSON number is read as an integer (the
  module's numbers are seconds, counts and ids); fractions are outside the model. The
  one number the module itself increments, the counter of the mining loop, is
  incremented as a double is.
\<close>

datatype json = JNull | JBool bool | JNumber int | JString string | JArray "json list"

text \<open>
  The two error classes of \<^verbatim>\<open>../errors\<close> that the module throws, each with its message,
  and the plain \<^verbatim>\<open>Error\<close> that an assertion of the big-number class raises.
\<close>

datatype error =
    MethodNotFoundError string
  | InvalidInputError string
  | AssertionFailed string

text \<open>What \<^verbatim>\<open>processRequest\<close> resolves to: a string or a boolean.\<close>

datatype rpc_result = RString string | RBoolean bool

subsection \<open>Numbers and strings\<close>

text \<open>The digits of a number in a radix; only the radices 10 and 16 are used.\<close>

definition digit_char :: "nat \<Rightarrow> char" where
  "digit_char d = ''0123456789abcdef'' ! d"

function nat_toString :: "nat \<Rightarrow> nat \<Rightarrow> string" where
  "nat_toString radix n =
     (if radix < 2 \<or> n < radix then [digit_char n]
      else nat_toString radix (n div radix) @ [digit_char (n mod radix)])"
  by pat_completeness auto
termination
  by (relation "measure (\<lambda>(radix, n). n)") auto

definition int_toString :: "nat \<Rightarrow> int \<Rightarrow> string" where
  "int_toString radix i =
     (if i < 0 then ''-'' @ nat_toString radix (nat (- i)) else nat_toString radix (nat i))"

text \<open>
  \<^verbatim>\<open>Number.prototype.toString()\<close> and a number inside a template literal: the decimal
  digits of an integer. JavaScript switches to exponent notation from \<open>10\<^sup>2\<^sup>1\<close> on; every
  number rendered below has passed \<open>newBN\<close> or \<open>toNumber\<close> first or is the length of a
  list, but for the iteration count in the text of \<open>sizeExceedsIterations\<close>.
\<close>

definition number_toString :: "int \<Rightarrow> string" where
  "number_toString n = int_toString 10 n"

subsection \<open>The big-number class\<close>

text \<open>
  \<^verbatim>\<open>BN\<close> is imported from \<^verbatim>\<open>ethereumjs-util\<close> (line 1), which hands on the class of the
  bn.js library; it is no code of the repository. A \<^verbatim>\<open>BN\<close> is an integer of any size,
  here an \<open>int\<close>; \<^verbatim>\<open>sub\<close>, \<^verbatim>\<open>lt\<close> and \<^verbatim>\<open>lte\<close> are \<open>-\<close>, \<open><\<close> and \<open>\<le>\<close>. The two
  conversions between a JavaScript number and a \<^verbatim>\<open>BN\<close> are partial in the library:
  \<^verbatim>\<open>new BN(number)\<close> takes the magnitude of a negative number and then asserts
  \<^verbatim>\<open>number < 0x20000000000000\<close> (that is \<open>2\<^sup>5\<^sup>3\<close>; the error reads \<^verbatim>\<open>Assertion failed\<close>), and
  \<^verbatim>\<open>toNumber()\<close> of a value of more than 53 bits fails with
  \<^verbatim>\<open>Number can only safely store up to 53 bits\<close>. A \<^verbatim>\<open>BN\<close> made from the bytes of a
  block header's timestamp is never refused.
\<close>

definition newBN :: "int \<Rightarrow> error + int" where
  "newBN number =
     (if \<bar>number\<bar> < 2 ^ 53 then Inr number
      else Inl (AssertionFailed ''Assertion failed''))"

definition toNumber :: "int \<Rightarrow> error + int" where
  "toNumber bn =
     (if \<bar>bn\<bar> < 2 ^ 53 then Inr bn
      else Inl (AssertionFailed ''Number can only safely store up to 53 bits''))"

text \<open>\<^verbatim>\<open>BN.prototype.toString()\<close>: base 10, any size.\<close>

definition bn_toString :: "int \<Rightarrow> string" where
  "bn_toString bn = int_toString 10 bn"

subsection \<open>The Node\<close>

text \<open>
  Modelled from the spec: the class \<^verbatim>\<open>HardhatNode\<close> of \<^verbatim>\<open>../node\<close> is not among the
  sources. The module is given a Node and uses the seven operations of section 6 of the
  specification; they are taken as parameters, total functions over the Node's state
  \<open>'s\<close>, so that every theorem below holds for every Node. \<open>getLatestBlock\<close> gives the
  \<^verbatim>\<open>header.timestamp\<close> of the latest block, an unsigned integer.
\<close>

record 's node =
  getLatestBlock :: "'s \<Rightarrow> nat"
  setNextBlockTimestamp :: "int \<Rightarrow> 's \<Rightarrow> 's"
  increaseTime :: "int \<Rightarrow> 's \<Rightarrow> 's"
  getTimeIncrement :: "'s \<Rightarrow> int"
  mineEmptyBlock :: "int \<Rightarrow> 's \<Rightarrow> 's"
  takeSnapshot :: "'s \<Rightarrow> nat \<times> 's"
  revertToSnapshot :: "int \<Rightarrow> 's \<Rightarrow> bool \<times> 's"

text \<open>The calls a request makes to the Node, in the order they are made.\<close>

datatype node_call =
    GetLatestBlock
  | SetNextBlockTimestamp int
  | IncreaseTime int
  | GetTimeIncrement
  | MineEmptyBlock int
  | TakeSnapshot
  | RevertToSnapshot int

record 's world =
  node_state :: 's
  calls :: "node_call list"

text \<open>
  A step of an \<^verbatim>\<open>async\<close> method: it runs in a world and ends with a value or a thrown
  error, in the world it has reached by then.
\<close>

type_synonym ('s, 'a) step = "'s world \<Rightarrow> (error + 'a) \<times> 's world"

definition ok :: "'a \<Rightarrow> ('s, 'a) step" where
  "ok a w = (Inr a, w)"

definition throw :: "error \<Rightarrow> ('s, 'a) step" where
  "throw e w = (Inl e, w)"

definition evaluate :: "error + 'a \<Rightarrow> ('s, 'a) step" where
  "evaluate r w = (r, w)"

definition andThen :: "('s, 'a) step \<Rightarrow> ('a \<Rightarrow> ('s, 'b) step) \<Rightarrow> ('s, 'b) step" where
  "andThen m f w = (case m w of (Inl e, w') \<Rightarrow> (Inl e, w') | (Inr a, w') \<Rightarrow> f a w')"

text \<open>
  A method with a loop may never return: its outcome is \<open>None\<close> then, and \<open>Some\<close> of
  what a step gives otherwise.
\<close>

type_synonym ('s, 'a) run = "'s world \<Rightarrow> ((error + 'a) \<times> 's world) option"

definition returns :: "('s, 'a) step \<Rightarrow> ('s, 'a) run" where
  "returns m w = Some (m w)"

definition andThenRun :: "('s, 'a) run \<Rightarrow> ('a \<Rightarrow> ('s, 'b) run) \<Rightarrow> ('s, 'b) run" where
  "andThenRun m f w =
     (case m w of
        None \<Rightarrow> None
      | Some (Inl e, w') \<Rightarrow> Some (Inl e, w')
      | Some (Inr a, w') \<Rightarrow> f a w')"

definition node_getLatestBlock :: "'s node \<Rightarrow> ('s, nat) step" where
  "node_getLatestBlock N w =
     (Inr (getLatestBlock N (node_state w)), w\<lparr>calls := calls w @ [GetLatestBlock]\<rparr>)"

definition node_setNextBlockTimestamp :: "'s node \<Rightarrow> int \<Rightarrow> ('s, unit) step" where
  "node_setNextBlockTimestamp N timestamp w =
     (Inr (), w\<lparr>node_state := setNextBlockTimestamp N timestamp (node_state w),
                 calls := calls w @ [SetNextBlockTimestamp timestamp]\<rparr>)"

definition node_increaseTime :: "'s node \<Rightarrow> int \<Rightarrow> ('s, unit) step" where
  "node_increaseTime N increment w =
     (Inr (), w\<lparr>node_state := increaseTime N increment (node_state w),
                 calls := calls w @ [IncreaseTime increment]\<rparr>)"

definition node_getTimeIncrement :: "'s node \<Rightarrow> ('s, int) step" where
  "node_getTimeIncrement N w =
     (Inr (getTimeIncrement N (node_state w)), w\<lparr>calls := calls w @ [GetTimeIncrement]\<rparr>)"

definition node_mineEmptyBlock :: "'s node \<Rightarrow> int \<Rightarrow> ('s, unit) step" where
  "node_mineEmptyBlock N timestamp w =
     (Inr (), w\<lparr>node_state := mineEmptyBlock N timestamp (node_state w),
                 calls := calls w @ [MineEmptyBlock timestamp]\<rparr>)"

definition node_takeSnapshot :: "'s node \<Rightarrow> ('s, nat) step" where
  "node_takeSnapshot N w =
     (let (snapshotId, s') = takeSnapshot N (node_state w)
      in (Inr snapshotId, w\<lparr>node_state := s', calls := calls w @ [TakeSnapshot]\<rparr>))"

definition node_revertToSnapshot :: "'s node \<Rightarrow> int \<Rightarrow> ('s, bool) step" where
  "node_revertToSnapshot N snapshotId w =
     (let (reverted, s') = revertToSnapshot N snapshotId (node_state w)
      in (Inr reverted,
          w\<lparr>node_state := s', calls := calls w @ [RevertToSnapshot snapshotId]\<rparr>))"

subsection \<open>evm_setNextBlockTimestamp\<close>

definition lowerThanPrevious :: "int \<Rightarrow> int \<Rightarrow> string" where
  "lowerThanPrevious timestamp previous =
     ''Timestamp '' @ number_toString timestamp @
     '' is lower than previous block's timestamp '' @ number_toString previous"

definition setNextBlockTimestampAction :: "'s node \<Rightarrow> int \<Rightarrow> ('s, string) step" where
  "setNextBlockTimestampAction N timestamp =
     andThen (node_getLatestBlock N) (\<lambda>latestTimestamp.
     andThen (evaluate (newBN timestamp)) (\<lambda>timestampBN.
       let increment = timestampBN - int latestTimestamp in
       if increment \<le> 0 then
         andThen (evaluate (toNumber (int latestTimestamp))) (\<lambda>previous.
           throw (InvalidInputError (lowerThanPrevious timestamp previous)))
       else
         andThen (evaluate (newBN timestamp)) (\<lambda>pinned.
         andThen (node_setNextBlockTimestamp N pinned) (\<lambda>_.
           ok (number_toString timestamp)))))"

subsection \<open>evm_increaseTime\<close>

definition increaseTimeAction :: "'s node \<Rightarrow> int \<Rightarrow> ('s, string) step" where
  "increaseTimeAction N increment =
     andThen (evaluate (newBN increment)) (\<lambda>incrementBN.
     andThen (node_increaseTime N incrementBN) (\<lambda>_.
     andThen (node_getTimeIncrement N) (\<lambda>totalIncrement.
       ok (bn_toString totalIncrement))))"

subsection \<open>evm_mine\<close>

text \<open>
  Modelled from the spec: \<^verbatim>\<open>numberToRpcQuantity\<close> of \<^verbatim>\<open>../output\<close> is not among the sources;
  it gives the hex quantity of a non-negative integer, \<^verbatim>\<open>0x\<close> and then the hexadecimal
  digits.
\<close>

definition numberToRpcQuantity :: "nat \<Rightarrow> string" where
  "numberToRpcQuantity x = ''0x'' @ nat_toString 16 x"

definition mineAction :: "'s node \<Rightarrow> int \<Rightarrow> ('s, string) step" where
  "mineAction N timestamp =
     andThen
       (if timestamp \<noteq> 0 then
          andThen (node_getLatestBlock N) (\<lambda>latestTimestamp.
          andThen (evaluate (newBN timestamp)) (\<lambda>timestampBN.
            let increment = timestampBN - int latestTimestamp in
            if increment \<le> 0 then
              andThen (evaluate (toNumber (int latestTimestamp))) (\<lambda>previous.
                throw (InvalidInputError (lowerThanPrevious timestamp previous)))
            else ok ()))
        else ok ())
       (\<lambda>_.
     andThen (evaluate (newBN timestamp)) (\<lambda>timestampBN.
     andThen (node_mineEmptyBlock N timestampBN) (\<lambda>_.
       ok (numberToRpcQuantity 0))))"

subsection \<open>evm_mineMultiple\<close>

text \<open>\<^verbatim>\<open>timestamps.map((ts) => new BN(ts))\<close>: the first failing conversion throws.\<close>

fun mapBN :: "int list \<Rightarrow> error + int list" where
  "mapBN [] = Inr []"
| "mapBN (ts # rest) =
     (case newBN ts of
        Inl e \<Rightarrow> Inl e
      | Inr tsBN \<Rightarrow> (case mapBN rest of Inl e \<Rightarrow> Inl e | Inr restBN \<Rightarrow> Inr (tsBN # restBN)))"

text \<open>
  The callback given to \<^verbatim>\<open>every\<close>: the last index passes, every other element must be
  lower than its successor.
\<close>

definition increasingSequence :: "int list \<Rightarrow> bool" where
  "increasingSequence arr =
     list_all (\<lambda>idx. if idx = length arr - 1 then True else arr ! idx < arr ! (idx + 1))
       [0..<length arr]"

definition sizeExceedsIterations :: "nat \<Rightarrow> int \<Rightarrow> string" where
  "sizeExceedsIterations len iterations =
     ''Timestamps array size '' @ number_toString (int len) @ '' must be lower than or '' @
     ''equal to the number of iterations specified '' @ number_toString iterations @ ''.''"

definition firstNotGreater :: "int \<Rightarrow> int \<Rightarrow> string" where
  "firstNotGreater first latest =
     ''First timestamp specified '' @ number_toString first @ '' should be greater '' @
     ''than latest block's timestamp '' @ number_toString latest"

text \<open>
  Lines 127 to 156 of the action: the checks on a non-empty list of timestamps, which
  end with the list converted to big numbers (the empty list when none was given).
\<close>

definition assertTimestamps :: "'s node \<Rightarrow> int \<Rightarrow> int list \<Rightarrow> ('s, int list) step" where
  "assertTimestamps N iterations timestamps =
     (if length timestamps \<noteq> 0 then
        if int (length timestamps) > iterations then
          throw (InvalidInputError (sizeExceedsIterations (length timestamps) iterations))
        else
          andThen (evaluate (mapBN timestamps)) (\<lambda>timestampsBN.
          andThen (node_getLatestBlock N) (\<lambda>latestTimestamp.
            let latestBlockTimestampBN = int latestTimestamp;
                increasing = increasingSequence timestampsBN
            in
            if timestampsBN ! 0 \<le> latestBlockTimestampBN then
              andThen (evaluate (toNumber (timestampsBN ! 0))) (\<lambda>first.
              andThen (evaluate (toNumber latestBlockTimestampBN)) (\<lambda>latest.
                throw (InvalidInputError (firstNotGreater first latest))))
            else if \<not> increasing then
              throw (InvalidInputError ''Timestamps specified must be an increasing sequence'')
            else ok timestampsBN))
      else ok [])"

text \<open>
  \<^verbatim>\<open>it++\<close> on the loop counter, a double that holds an integer: exact below \<open>2\<^sup>5\<^sup>3\<close>, and
  at \<open>2\<^sup>5\<^sup>3\<close> the sum \<open>2\<^sup>5\<^sup>3 + 1\<close> rounds back to \<open>2\<^sup>5\<^sup>3\<close>. The counter starts at zero, so it
  never gets beyond.
\<close>

definition plusPlus :: "int \<Rightarrow> int" where
  "plusPlus it = (if it < 2 ^ 53 then it + 1 else it)"

text \<open>
  The \<^verbatim>\<open>for\<close> loop of lines 162 to 168, from the counter \<open>it\<close> on; \<^verbatim>\<open>new BN(0)\<close> is
  \<open>0\<close>. With more than \<open>2\<^sup>5\<^sup>3\<close> iterations the counter stops short of them and the loop
  does not end.
\<close>

partial_function (option) mineLoop ::
  "'s node \<Rightarrow> int \<Rightarrow> int list \<Rightarrow> int \<Rightarrow> 's world \<Rightarrow> ((error + unit) \<times> 's world) option"
where
  "mineLoop N iterations timestampsBN it w =
     (if it < iterations then
        (case node_mineEmptyBlock N
                (if it < int (length timestampsBN) then timestampsBN ! nat it else 0) w of
           (Inl e, w') \<Rightarrow> Some (Inl e, w')
         | (Inr _, w') \<Rightarrow> mineLoop N iterations timestampsBN (plusPlus it) w')
      else Some (Inr (), w))"

definition mineMultipleAction :: "'s node \<Rightarrow> int \<Rightarrow> int list \<Rightarrow> ('s, string) run" where
  "mineMultipleAction N iterations timestamps =
     andThenRun (returns (assertTimestamps N iterations timestamps)) (\<lambda>timestampsBN.
       if iterations \<le> 0 then
         returns
           (throw (InvalidInputError ''Invalid iterations number, it must be greater than 0''))
       else
         andThenRun (mineLoop N iterations timestampsBN 0) (\<lambda>_.
           returns (ok (numberToRpcQuantity 0))))"

subsection \<open>evm_revert and evm_snapshot\<close>

definition revertAction :: "'s node \<Rightarrow> int \<Rightarrow> ('s, bool) step" where
  "revertAction N snapshotId =
     andThen (evaluate (toNumber snapshotId)) (\<lambda>snapshotNumber.
       node_revertToSnapshot N snapshotNumber)"

definition snapshotAction :: "'s node \<Rightarrow> ('s, string) step" where
  "snapshotAction N =
     andThen (node_takeSnapshot N) (\<lambda>snapshotId. ok (numberToRpcQuantity snapshotId))"

subsection \<open>Parameter validation\<close>

text \<open>
  Modelled from the spec: the codecs \<^verbatim>\<open>t.number\<close> and \<^verbatim>\<open>t.Array\<close> come from the io-ts
  library, not from the sources. By section 4.2 of the specification the first accepts a
  numeric argument and the second a sequence of numerics.
\<close>

definition t_number :: "json \<Rightarrow> int option" where
  "t_number p = (case p of JNumber n \<Rightarrow> Some n | _ \<Rightarrow> None)"

definition t_Array :: "json \<Rightarrow> int list option" where
  "t_Array p =
     (case p of
        JArray elements \<Rightarrow>
          if list_all (\<lambda>e. t_number e \<noteq> None) elements
          then Some (map (\<lambda>e. the (t_number e)) elements) else None
      | _ \<Rightarrow> None)"

text \<open>
  Modelled from the spec: \<^verbatim>\<open>rpcQuantity\<close> of \<^verbatim>\<open>../input\<close> is not among the sources. It
  decodes an integer encoded as a hex quantity on the wire: \<^verbatim>\<open>0x\<close>, then at least one
  hexadecimal digit, with no leading zero but for zero itself.
\<close>

definition hexDigit :: "char \<Rightarrow> nat option" where
  "hexDigit c = map_of (zip ''0123456789abcdef'' [0..<16] @ zip ''ABCDEF'' [10..<16]) c"

definition rpcQuantity :: "json \<Rightarrow> int option" where
  "rpcQuantity p =
     (case p of
        JString (a # b # digits) \<Rightarrow>
          if a = CHR ''0'' \<and> b = CHR ''x'' \<and> digits \<noteq> [] \<and>
             list_all (\<lambda>c. hexDigit c \<noteq> None) digits \<and>
             (hd digits \<noteq> CHR ''0'' \<or> length digits = 1)
          then Some (foldl (\<lambda>acc c. 16 * acc + int (the (hexDigit c))) 0 digits)
          else None
      | _ \<Rightarrow> None)"

text \<open>
  Modelled from the spec: \<^verbatim>\<open>validateParams\<close> of \<^verbatim>\<open>../input\<close> is not among the sources. By
  section 4.2 of the specification a call checks the arity, then each parameter against
  its type, and any mismatch is an invalid input error. The specification does not give
  the text of these two messages. \<open>validateParams1\<close> is the call with one type,
  \<open>validateParams2\<close> the call with two.
\<close>

definition wrongArity :: "nat \<Rightarrow> nat \<Rightarrow> error" where
  "wrongArity expected got =
     InvalidInputError (''Expected exactly '' @ number_toString (int expected) @
       '' arguments and got '' @ number_toString (int got))"

definition wrongType :: "nat \<Rightarrow> error" where
  "wrongType i = InvalidInputError (''Errors encountered in param '' @ number_toString (int i))"

definition validateParams1 :: "json list \<Rightarrow> (json \<Rightarrow> 'a option) \<Rightarrow> error + 'a" where
  "validateParams1 params type0 =
     (case params of
        [p0] \<Rightarrow> (case type0 p0 of None \<Rightarrow> Inl (wrongType 0) | Some a \<Rightarrow> Inr a)
      | _ \<Rightarrow> Inl (wrongArity 1 (length params)))"

definition validateParams2 ::
  "json list \<Rightarrow> (json \<Rightarrow> 'a option) \<Rightarrow> (json \<Rightarrow> 'b option) \<Rightarrow> error + 'a \<times> 'b" where
  "validateParams2 params type0 type1 =
     (case params of
        [p0, p1] \<Rightarrow>
          (case type0 p0 of
             None \<Rightarrow> Inl (wrongType 0)
           | Some a \<Rightarrow> (case type1 p1 of None \<Rightarrow> Inl (wrongType 1) | Some b \<Rightarrow> Inr (a, b)))
      | _ \<Rightarrow> Inl (wrongArity 2 (length params)))"

text \<open>The parameter methods of the class, as written in the source.\<close>

definition setNextBlockTimestampParams :: "json list \<Rightarrow> error + int" where
  "setNextBlockTimestampParams params = validateParams1 params t_number"

definition increaseTimeParams :: "json list \<Rightarrow> error + int" where
  "increaseTimeParams params = validateParams1 params t_number"

definition mineParams :: "json list \<Rightarrow> error + int" where
  "mineParams params =
     validateParams1 (if length params = 0 then params @ [JNumber 0] else params) t_number"

text \<open>
  The \<^verbatim>\<open>switch\<close> on the length falls through: no parameter gets both defaults, one
  parameter the empty list, more are left as they are.
\<close>

definition mineMultipleParams :: "json list \<Rightarrow> error + int \<times> int list" where
  "mineMultipleParams params =
     validateParams2
       (if length params = 0 then (params @ [JNumber 0]) @ [JArray []]
        else if length params = 1 then params @ [JArray []]
        else params)
       t_number t_Array"

definition revertParams :: "json list \<Rightarrow> error + int" where
  "revertParams params = validateParams1 params rpcQuantity"

definition snapshotParams :: "json list \<Rightarrow> error + unit" where
  "snapshotParams params = Inr ()"

subsection \<open>The dispatcher\<close>

definition processRequest :: "'s node \<Rightarrow> string \<Rightarrow> json list \<Rightarrow> ('s, rpc_result) run" where
  "processRequest N method params =
     (if method = ''evm_increaseTime'' then
        returns
          (andThen (evaluate (increaseTimeParams params)) (\<lambda>increment.
           andThen (increaseTimeAction N increment) (\<lambda>r. ok (RString r))))
      else if method = ''evm_setNextBlockTimestamp'' then
        returns
          (andThen (evaluate (setNextBlockTimestampParams params)) (\<lambda>timestamp.
           andThen (setNextBlockTimestampAction N timestamp) (\<lambda>r. ok (RString r))))
      else if method = ''evm_mine'' then
        returns
          (andThen (evaluate (mineParams params)) (\<lambda>timestamp.
           andThen (mineAction N timestamp) (\<lambda>r. ok (RString r))))
      else if method = ''evm_mineMultiple'' then
        andThenRun (returns (evaluate (mineMultipleParams params))) (\<lambda>(iterations, timestamps).
        andThenRun (mineMultipleAction N iterations timestamps) (\<lambda>r. returns (ok (RString r))))
      else if method = ''evm_revert'' then
        returns
          (andThen (evaluate (revertParams params)) (\<lambda>snapshotId.
           andThen (revertAction N snapshotId) (\<lambda>r. ok (RBoolean r))))
      else if method = ''evm_snapshot'' then
        returns
          (andThen (evaluate (snapshotParams params)) (\<lambda>_.
           andThen (snapshotAction N) (\<lambda>r. ok (RString r))))
      else returns (throw (MethodNotFoundError (''Method '' @ method @ '' not found''))))"

subsection \<open>A Node to run the module on\<close>

text \<open>
  Modelled from the spec: a small Node that behaves as sections 3 and 6 of the
  specification say, used where a theorem is applied to a concrete Node. It keeps the
  head block's timestamp, the cumulative time offset, the pinned timestamp of the next
  block (zero when none) and the number of snapshots issued. A block mined with the
  sentinel zero takes the pinned timestamp, or else the second after the head's.
\<close>

record test_state =
  head :: nat
  offset :: int
  pinned :: int
  snapshots :: nat

definition testNode :: "test_state node" where
  "testNode =
     \<lparr> getLatestBlock = head,
       setNextBlockTimestamp = (\<lambda>timestamp s. s\<lparr>pinned := timestamp\<rparr>),
       increaseTime = (\<lambda>increment s. s\<lparr>offset := offset s + increment\<rparr>),
       getTimeIncrement = offset,
       mineEmptyBlock = (\<lambda>timestamp s.
         s\<lparr>head := (if timestamp \<noteq> 0 then nat timestamp
                     else if pinned s \<noteq> 0 then nat (pinned s) else head s + 1),
           pinned := 0\<rparr>),
       takeSnapshot = (\<lambda>s. (snapshots s + 1, s\<lparr>snapshots := snapshots s + 1\<rparr>)),
       revertToSnapshot = (\<lambda>snapshotId s.
         if 1 \<le> snapshotId \<and> snapshotId \<le> int (snapshots s)
         then (True, s\<lparr>snapshots := nat snapshotId - 1\<rparr>) else (False, s)) \<rparr>"

definition genesis :: "nat \<Rightarrow> test_state world" where
  "genesis timestamp =
     \<lparr> node_state = \<lparr> head = timestamp, offset = 0, pinned = 0, snapshots = 0 \<rparr>,
       calls = [] \<rparr>"

section \<open>Properties of the request handler\<close>

subsection \<open>Auxiliary facts\<close>

lemmas step_defs = ok_def throw_def evaluate_def andThen_def returns_def andThenRun_def

lemmas node_defs = node_getLatestBlock_def node_setNextBlockTimestamp_def
  node_increaseTime_def node_getTimeIncrement_def node_mineEmptyBlock_def
  node_takeSnapshot_def node_revertToSnapshot_def

lemmas render_defs = number_toString_def bn_toString_def int_toString_def digit_char_def

lemmas test_defs = testNode_def genesis_def

lemma newBN_safe: "\<bar>n\<bar> < 2 ^ 53 \<Longrightarrow> newBN n = Inr n"
  by (simp add: newBN_def)

lemma zero_quantity: "numberToRpcQuantity 0 = ''0x0''"
  by (simp add: numberToRpcQuantity_def digit_char_def)

lemma mapBN_safe: "\<forall>t\<in>set ts. \<bar>t\<bar> < 2 ^ 53 \<Longrightarrow> mapBN ts = Inr ts"
  by (induction ts) (simp_all add: newBN_def)

lemma mapBN_cases:
  "mapBN ts = Inr ts \<or> mapBN ts = Inl (AssertionFailed ''Assertion failed'')"
  by (induction ts) (auto simp: newBN_def)

text \<open>
  The callback of \<^verbatim>\<open>every\<close> compares neighbours only; on integers that is the same as
  the whole list being strictly increasing.
\<close>

lemma increasingSequence_nth:
  "increasingSequence arr \<longleftrightarrow> (\<forall>i. Suc i < length arr \<longrightarrow> arr ! i < arr ! Suc i)"
proof
  assume inc: "increasingSequence arr"
  show "\<forall>i. Suc i < length arr \<longrightarrow> arr ! i < arr ! Suc i"
  proof (intro allI impI)
    fix i assume i: "Suc i < length arr"
    then have mem: "i \<in> set [0..<length arr]" and ne: "i \<noteq> length arr - 1" by auto
    from inc have "\<forall>idx\<in>set [0..<length arr].
        if idx = length arr - 1 then True else arr ! idx < arr ! (idx + 1)"
      by (simp add: increasingSequence_def list_all_iff)
    with mem have "if i = length arr - 1 then True else arr ! i < arr ! (i + 1)"
      by blast
    with ne show "arr ! i < arr ! Suc i" by simp
  qed
next
  assume adj: "\<forall>i. Suc i < length arr \<longrightarrow> arr ! i < arr ! Suc i"
  show "increasingSequence arr"
    unfolding increasingSequence_def list_all_iff
  proof
    fix idx assume "idx \<in> set [0..<length arr]"
    then have "idx \<noteq> length arr - 1 \<Longrightarrow> Suc idx < length arr" by auto
    with adj show "if idx = length arr - 1 then True else arr ! idx < arr ! (idx + 1)"
      by simp
  qed
qed

lemma neighbours_less:
  fixes arr :: "int list"
  assumes adj: "\<forall>i. Suc i < length arr \<longrightarrow> arr ! i < arr ! Suc i"
  shows "i < j \<Longrightarrow> j < length arr \<Longrightarrow> arr ! i < arr ! j"
proof (induction j)
  case 0
  then show ?case by simp
next
  case (Suc j)
  from adj Suc.prems have step: "arr ! j < arr ! Suc j" by simp
  show ?case
  proof (cases "i = j")
    case True
    with step show ?thesis by simp
  next
    case False
    with Suc.prems have "i < j" "j < length arr" by simp_all
    then have "arr ! i < arr ! j" by (rule Suc.IH)
    with step show ?thesis by simp
  qed
qed

lemma increasingSequence_sorted:
  "increasingSequence arr \<longleftrightarrow> sorted_wrt (<) arr"
proof
  assume "increasingSequence arr"
  then have "\<forall>i. Suc i < length arr \<longrightarrow> arr ! i < arr ! Suc i"
    by (simp add: increasingSequence_nth)
  then show "sorted_wrt (<) arr"
    by (simp add: sorted_wrt_iff_nth_less neighbours_less)
next
  assume "sorted_wrt (<) arr"
  then show "increasingSequence arr"
    by (simp add: increasingSequence_nth sorted_wrt_iff_nth_less)
qed

text \<open>
  With at most \<open>2\<^sup>5\<^sup>3\<close> iterations the loop ends: from the counter \<open>it\<close> on it mines one
  block for every index up to \<open>iterations\<close>, with the timestamp at that index or zero.
\<close>

lemma mineLoop_runs:
  assumes "0 \<le> it" and "iterations \<le> 2 ^ 53"
  shows "mineLoop N iterations tsBN it w =
     Some (Inr (),
      w\<lparr>node_state :=
           fold (mineEmptyBlock N)
             (map (\<lambda>i. if i < length tsBN then tsBN ! i else 0) [nat it..<nat iterations])
             (node_state w),
         calls := calls w @
           map MineEmptyBlock
             (map (\<lambda>i. if i < length tsBN then tsBN ! i else 0) [nat it..<nat iterations])\<rparr>)"
  using assms(1)
proof (induction "nat (iterations - it)" arbitrary: it w)
  case 0
  then have "\<not> it < iterations" and "[nat it..<nat iterations] = []" by simp_all
  then show ?case by (subst mineLoop.simps) simp
next
  case (Suc k)
  let ?at = "\<lambda>i. if i < length tsBN then tsBN ! i else 0"
  let ?ts = "if it < int (length tsBN) then tsBN ! nat it else 0"
  let ?w = "w\<lparr>node_state := mineEmptyBlock N ?ts (node_state w),
               calls := calls w @ [MineEmptyBlock ?ts]\<rparr>"
  from Suc.hyps(2) have less: "it < iterations" by simp
  with assms(2) have next_it: "plusPlus it = it + 1" by (simp add: plusPlus_def)
  have sched: "map ?at [nat it..<nat iterations] = ?ts # map ?at [nat (it + 1)..<nat iterations]"
    using less Suc.prems by (auto simp: upt_conv_Cons nat_add_distrib)
  have "mineLoop N iterations tsBN it w = mineLoop N iterations tsBN (it + 1) ?w"
    using less next_it by (subst mineLoop.simps) (simp add: node_mineEmptyBlock_def)
  also have "\<dots> =
    Some (Inr (),
     ?w\<lparr>node_state :=
          fold (mineEmptyBlock N) (map ?at [nat (it + 1)..<nat iterations]) (node_state ?w),
        calls := calls ?w @ map MineEmptyBlock (map ?at [nat (it + 1)..<nat iterations])\<rparr>)"
  proof (rule Suc.hyps(1))
    show "k = nat (iterations - (it + 1))" using Suc.hyps(2) by simp
    show "0 \<le> it + 1" using Suc.prems by simp
  qed
  finally show ?case by (simp add: sched)
qed

text \<open>
  With more iterations the counter stays below them for ever, and the loop does not
  return.
\<close>

lemma mineLoop_stuck:
  assumes "mineLoop N iterations tsBN it w = Some r"
  shows "\<not> (it \<le> 2 ^ 53 \<and> 2 ^ 53 < iterations)"
proof (rule mineLoop.raw_induct
    [where P = "\<lambda>N iterations tsBN it w r. \<not> (it \<le> 2 ^ 53 \<and> 2 ^ 53 < iterations)", OF _ assms])
  fix loop :: "'a node \<Rightarrow> int \<Rightarrow> int list \<Rightarrow> int \<Rightarrow> 'a world \<Rightarrow> ((error + unit) \<times> 'a world) option"
  fix N iterations tsBN it w r
  assume IH: "\<And>N' n' ts' it' w' y. loop N' n' ts' it' w' = Some y \<Longrightarrow>
                \<not> (it' \<le> 2 ^ 53 \<and> 2 ^ 53 < n')"
    and unfolded:
      "(if it < iterations then
          (case node_mineEmptyBlock N
                  (if it < int (length tsBN) then tsBN ! nat it else 0) w of
             (Inl e, w') \<Rightarrow> Some (Inl e, w')
           | (Inr _, w') \<Rightarrow> loop N iterations tsBN (plusPlus it) w')
        else Some (Inr (), w)) = Some r"
  show "\<not> (it \<le> 2 ^ 53 \<and> 2 ^ 53 < iterations)"
  proof
    assume bound: "it \<le> 2 ^ 53 \<and> 2 ^ 53 < iterations"
    then have less: "it < iterations" and up: "plusPlus it \<le> 2 ^ 53"
      by (simp_all add: plusPlus_def)
    from unfolded less obtain w' where "loop N iterations tsBN (plusPlus it) w' = Some r"
      by (auto simp: node_mineEmptyBlock_def)
    then have "\<not> (plusPlus it \<le> 2 ^ 53 \<and> 2 ^ 53 < iterations)" by (rule IH)
    with up bound show False by simp
  qed
qed

lemma mineLoop_never_returns:
  "2 ^ 53 < iterations \<Longrightarrow> mineLoop N iterations tsBN 0 w = None"
  using mineLoop_stuck [of N iterations tsBN 0 w] by (cases "mineLoop N iterations tsBN 0 w") auto

lemma schedule_all:
  "length tsBN \<le> n \<Longrightarrow>
   map (\<lambda>i. if i < length tsBN then tsBN ! i else 0) [0..<n] =
     tsBN @ replicate (n - length tsBN) (0 :: int)"
  by (rule nth_equalityI) (auto simp: nth_append)

lemma assertTimestamps_empty: "assertTimestamps N iterations [] w = (Inr [], w)"
  by (simp add: assertTimestamps_def ok_def)

lemma assertTimestamps_accepts:
  assumes "ts \<noteq> []" "int (length ts) \<le> n" "int (getLatestBlock N (node_state w)) < ts ! 0"
    "sorted_wrt (<) ts" "\<forall>t\<in>set ts. \<bar>t\<bar> < 2 ^ 53"
  shows "assertTimestamps N n ts w = (Inr ts, w\<lparr>calls := calls w @ [GetLatestBlock]\<rparr>)"
  using assms
  by (simp add: assertTimestamps_def step_defs node_defs mapBN_safe increasingSequence_sorted
      Let_def)

lemma quantity_2_53: "rpcQuantity (JString ''0x20000000000000'') = Some (2 ^ 53)"
  by code_simp

lemma quantity_2_53_1: "rpcQuantity (JString ''0x20000000000001'') = Some (2 ^ 53 + 1)"
  by code_simp

lemma quantity_1: "rpcQuantity (JString ''0x1'') = Some 1"
  by code_simp

subsection \<open>evm_mineMultiple: a rejected batch mines nothing\<close>

text \<open>
  C1, as amended. For every \<open>mineMultiple\<close> call, if a precondition is violated (the
  list of timestamps is longer than \<open>iterations\<close>, its first timestamp is not above the
  head block's, it is not strictly increasing, or \<open>iterations \<le> 0\<close>), the call fails,
  the Node's state is as before and the only call the Node may have received is
  \<open>getLatestBlock\<close>: no block is mined. The failure is an invalid input error whenever
  every supplied timestamp is below \<open>2\<^sup>5\<^sup>3\<close> in magnitude and the head timestamp is below
  \<open>2\<^sup>5\<^sup>3\<close>.
\<close>

theorem mineMultiple_rejects:
  fixes N :: "'s node" and w :: "'s world"
  assumes "int (length ts) > n \<or>
           (ts \<noteq> [] \<and> ts ! 0 \<le> int (getLatestBlock N (node_state w))) \<or>
           \<not> sorted_wrt (<) ts \<or> n \<le> 0"
  shows "\<exists>e w'. mineMultipleAction N n ts w = Some (Inl e, w') \<and>
           node_state w' = node_state w \<and>
           (calls w' = calls w \<or> calls w' = calls w @ [GetLatestBlock]) \<and>
           ((\<forall>t\<in>set ts. \<bar>t\<bar> < 2 ^ 53) \<and> getLatestBlock N (node_state w) < 2 ^ 53 \<longrightarrow>
              (\<exists>message. e = InvalidInputError message))"
proof (cases "ts = []")
  case True
  with assms have "n \<le> 0" by auto
  with True show ?thesis
    by (simp add: mineMultipleAction_def assertTimestamps_empty step_defs)
next
  case False
  show ?thesis
  proof (cases "int (length ts) > n")
    case True
    with False show ?thesis
      by (simp add: mineMultipleAction_def assertTimestamps_def step_defs)
  next
    case fits: False
    from mapBN_cases [of ts] show ?thesis
    proof
      assume "mapBN ts = Inl (AssertionFailed ''Assertion failed'')"
      moreover from this have "\<not> (\<forall>t\<in>set ts. \<bar>t\<bar> < 2 ^ 53)"
        using mapBN_safe [of ts] by auto
      ultimately show ?thesis
        using False fits
        by (simp add: mineMultipleAction_def assertTimestamps_def step_defs)
    next
      assume conv: "mapBN ts = Inr ts"
      have first: "ts ! 0 \<in> set ts" using False by simp
      have pos: "\<not> n \<le> 0" using False fits by (cases ts) auto
      from assms False fits pos
      have bad: "ts ! 0 \<le> int (getLatestBlock N (node_state w)) \<or> \<not> increasingSequence ts"
        by (auto simp: increasingSequence_sorted)
      show ?thesis
      proof (cases "ts ! 0 \<le> int (getLatestBlock N (node_state w))")
        case True
        with False fits conv first show ?thesis
          by (auto simp: mineMultipleAction_def assertTimestamps_def step_defs node_defs
              toNumber_def Let_def)
      next
        case False
        with bad have "\<not> increasingSequence ts" by simp
        with False \<open>ts \<noteq> []\<close> fits conv show ?thesis
          by (simp add: mineMultipleAction_def assertTimestamps_def step_defs node_defs Let_def)
      qed
    qed
  qed
qed

text \<open>
  The theorem at a batch whose timestamps repeat, and at one with no iterations: each is
  rejected with the source's message and the head block stays where it was.
\<close>

theorem mineMultiple_rejects_witness:
  "\<not> sorted_wrt (<) [101, 101 :: int] \<and>
   mineMultipleAction testNode 3 [101, 101] (genesis 100) =
     Some (Inl (InvalidInputError ''Timestamps specified must be an increasing sequence''),
      \<lparr>node_state = \<lparr>head = 100, offset = 0, pinned = 0, snapshots = 0\<rparr>,
       calls = [GetLatestBlock]\<rparr>) \<and>
   mineMultipleAction testNode 0 [] (genesis 100) =
     Some (Inl (InvalidInputError ''Invalid iterations number, it must be greater than 0''),
      \<lparr>node_state = \<lparr>head = 100, offset = 0, pinned = 0, snapshots = 0\<rparr>, calls = []\<rparr>)"
proof -
  have run: "mineMultipleAction testNode 3 [101, 101] (genesis 100) =
     Some (Inl (InvalidInputError ''Timestamps specified must be an increasing sequence''),
      \<lparr>node_state = \<lparr>head = 100, offset = 0, pinned = 0, snapshots = 0\<rparr>,
       calls = [GetLatestBlock]\<rparr>)"
    by (simp add: mineMultipleAction_def assertTimestamps_def step_defs node_defs newBN_def
        increasingSequence_def test_defs Let_def upt_conv_Cons)
  have none: "mineMultipleAction testNode 0 [] (genesis 100) =
     Some (Inl (InvalidInputError ''Invalid iterations number, it must be greater than 0''),
      \<lparr>node_state = \<lparr>head = 100, offset = 0, pinned = 0, snapshots = 0\<rparr>, calls = []\<rparr>)"
    by (simp add: mineMultipleAction_def assertTimestamps_def step_defs test_defs)
  from mineMultiple_rejects [where ts = "[101, 101]" and n = 3 and N = testNode and w = "genesis 100"]
    mineMultiple_rejects [where ts = "[]" and n = 0 and N = testNode and w = "genesis 100"] run none
  show ?thesis by simp
qed

text \<open>
  The claim as first stated promises an invalid input error for every violated
  precondition. A batch that is not increasing and holds the timestamp \<open>2\<^sup>5\<^sup>3\<close> fails in
  the conversion to a big number instead, before the head block is read.
\<close>

theorem mineMultiple_rejects_counterexample:
  "\<not> sorted_wrt (<) [2 ^ 53, 1 :: int] \<and>
   mineMultipleAction testNode 2 [2 ^ 53, 1] (genesis 100) =
     Some (Inl (AssertionFailed ''Assertion failed''),
      \<lparr>node_state = \<lparr>head = 100, offset = 0, pinned = 0, snapshots = 0\<rparr>, calls = []\<rparr>)"
  by (simp add: mineMultipleAction_def assertTimestamps_def step_defs newBN_def test_defs)

subsection \<open>evm_mineMultiple: an accepted batch\<close>

text \<open>
  C2, as amended. For every \<open>mineMultiple\<close> call with \<open>n\<close> iterations, \<open>0 < n \<le> 2\<^sup>5\<^sup>3\<close>,
  and a valid list of timestamps \<open>t\<^sub>1 \<dots> t\<^sub>k\<close> (\<open>k \<le> n\<close>, \<open>t\<^sub>1\<close> above the head timestamp,
  strictly increasing) whose entries are below \<open>2\<^sup>5\<^sup>3\<close> in magnitude, the call returns and
  the Node's \<open>mineEmptyBlock\<close> is called exactly \<open>n\<close> times, in order: first with
  \<open>t\<^sub>1 \<dots> t\<^sub>k\<close>, then \<open>n - k\<close> times with the sentinel zero; the head block is read once
  before, when timestamps were given; the result is the zero hex quantity.
\<close>

theorem mineMultiple_mines:
  fixes N :: "'s node" and w :: "'s world"
  assumes "0 < n" and "n \<le> 2 ^ 53" and "int (length ts) \<le> n"
    and "ts \<noteq> [] \<longrightarrow> int (getLatestBlock N (node_state w)) < ts ! 0"
    and "sorted_wrt (<) ts" and "\<forall>t\<in>set ts. \<bar>t\<bar> < 2 ^ 53"
  shows "mineMultipleAction N n ts w =
           Some (Inr ''0x0'',
            w\<lparr>node_state :=
                 fold (mineEmptyBlock N) (ts @ replicate (nat n - length ts) 0) (node_state w),
               calls := calls w @ (if ts = [] then [] else [GetLatestBlock]) @
                 map MineEmptyBlock (ts @ replicate (nat n - length ts) 0)\<rparr>) \<and>
         length (ts @ replicate (nat n - length ts) 0) = nat n"
proof -
  have len: "length ts \<le> nat n" using assms(3) by simp
  have loop: "mineLoop N n ts 0 v =
      Some (Inr (),
       v\<lparr>node_state :=
            fold (mineEmptyBlock N) (ts @ replicate (nat n - length ts) 0) (node_state v),
          calls := calls v @ map MineEmptyBlock (ts @ replicate (nat n - length ts) 0)\<rparr>)"
    for v :: "'s world"
    using len assms(2) by (simp add: mineLoop_runs schedule_all)
  have checked: "assertTimestamps N n ts w =
      (Inr ts, w\<lparr>calls := calls w @ (if ts = [] then [] else [GetLatestBlock])\<rparr>)"
  proof (cases "ts = []")
    case True
    then show ?thesis by (simp add: assertTimestamps_empty)
  next
    case False
    with assms show ?thesis by (simp add: assertTimestamps_accepts)
  qed
  have "mineMultipleAction N n ts w =
          Some (Inr ''0x0'',
           w\<lparr>node_state :=
                fold (mineEmptyBlock N) (ts @ replicate (nat n - length ts) 0) (node_state w),
              calls := calls w @ (if ts = [] then [] else [GetLatestBlock]) @
                map MineEmptyBlock (ts @ replicate (nat n - length ts) 0)\<rparr>)"
    using assms(1) by (simp add: mineMultipleAction_def step_defs checked loop zero_quantity)
  moreover have "length (ts @ replicate (nat n - length ts) 0) = nat n"
    using len by simp
  ultimately show ?thesis by simp
qed

theorem mineMultiple_mines_witness:
  "(0 :: int) < 3 \<and> (3 :: int) \<le> 2 ^ 53 \<and> int (length [101, 105 :: int]) \<le> 3 \<and>
   int (getLatestBlock testNode (node_state (genesis 100))) < [101, 105] ! 0 \<and>
   sorted_wrt (<) [101, 105 :: int] \<and> \<bar>101 :: int\<bar> < 2 ^ 53 \<and> \<bar>105 :: int\<bar> < 2 ^ 53 \<and>
   mineMultipleAction testNode 3 [101, 105] (genesis 100) =
     Some (Inr ''0x0'',
      \<lparr>node_state = \<lparr>head = 106, offset = 0, pinned = 0, snapshots = 0\<rparr>,
       calls = [GetLatestBlock, MineEmptyBlock 101, MineEmptyBlock 105, MineEmptyBlock 0]\<rparr>)"
  using mineMultiple_mines [where n = 3 and ts = "[101, 105]" and N = testNode and w = "genesis 100"]
  by (simp add: test_defs numeral_3_eq_3)

text \<open>
  The claim as first stated covers every valid list. The one timestamp \<open>2\<^sup>5\<^sup>3\<close>, above the
  head, is a valid list, and the call fails in the conversion with no block mined.
\<close>

theorem mineMultiple_mines_counterexample:
  "(0 :: int) < 1 \<and> int (length [2 ^ 53 :: int]) \<le> 1 \<and>
   int (getLatestBlock testNode (node_state (genesis 100))) < [2 ^ 53] ! 0 \<and>
   sorted_wrt (<) [2 ^ 53 :: int] \<and>
   mineMultipleAction testNode 1 [2 ^ 53] (genesis 100) =
     Some (Inl (AssertionFailed ''Assertion failed''),
      \<lparr>node_state = \<lparr>head = 100, offset = 0, pinned = 0, snapshots = 0\<rparr>, calls = []\<rparr>)"
  by (simp add: mineMultipleAction_def assertTimestamps_def step_defs newBN_def test_defs)

subsection \<open>evm_setNextBlockTimestamp\<close>

text \<open>
  C3, as amended. For every timestamp \<open>t\<close> below \<open>2\<^sup>5\<^sup>3\<close> in magnitude: when
  \<open>t - headTimestamp \<le> 0\<close> the call fails after reading the head block and the Node's
  \<open>setNextBlockTimestamp\<close> is not called, and the failure is an invalid input error whose
  message cites both \<open>t\<close> and the head timestamp when the head timestamp is below
  \<open>2\<^sup>5\<^sup>3\<close>; otherwise the call instructs the Node to pin the next block's timestamp to \<open>t\<close>
  and returns \<open>t\<close> as a decimal string.
\<close>

theorem setNextBlockTimestamp_checked:
  fixes N :: "'s node" and w :: "'s world"
  assumes "\<bar>t\<bar> < 2 ^ 53"
  defines "h \<equiv> getLatestBlock N (node_state w)"
  shows "(t - int h \<le> 0 \<longrightarrow>
            (\<exists>e. setNextBlockTimestampAction N t w =
                   (Inl e, w\<lparr>calls := calls w @ [GetLatestBlock]\<rparr>)) \<and>
            (h < 2 ^ 53 \<longrightarrow>
               setNextBlockTimestampAction N t w =
                 (Inl (InvalidInputError
                    (''Timestamp '' @ number_toString t @
                     '' is lower than previous block's timestamp '' @ number_toString (int h))),
                  w\<lparr>calls := calls w @ [GetLatestBlock]\<rparr>))) \<and>
         (\<not> t - int h \<le> 0 \<longrightarrow>
            setNextBlockTimestampAction N t w =
              (Inr (number_toString t),
               w\<lparr>node_state := setNextBlockTimestamp N t (node_state w),
                  calls := calls w @ [GetLatestBlock, SetNextBlockTimestamp t]\<rparr>))"
  using assms
  by (auto simp: setNextBlockTimestampAction_def step_defs node_defs newBN_safe toNumber_def
      lowerThanPrevious_def Let_def)

theorem setNextBlockTimestamp_checked_witness:
  "\<bar>150 :: int\<bar> < 2 ^ 53 \<and>
   \<not> 150 - int (getLatestBlock testNode (node_state (genesis 100))) \<le> 0 \<and>
   setNextBlockTimestampAction testNode 150 (genesis 100) =
     (Inr ''150'',
      \<lparr>node_state = \<lparr>head = 100, offset = 0, pinned = 150, snapshots = 0\<rparr>,
       calls = [GetLatestBlock, SetNextBlockTimestamp 150]\<rparr>) \<and>
   \<bar>50 :: int\<bar> < 2 ^ 53 \<and>
   50 - int (getLatestBlock testNode (node_state (genesis 100))) \<le> 0 \<and>
   getLatestBlock testNode (node_state (genesis 100)) < 2 ^ 53 \<and>
   setNextBlockTimestampAction testNode 50 (genesis 100) =
     (Inl (InvalidInputError ''Timestamp 50 is lower than previous block's timestamp 100''),
      \<lparr>node_state = \<lparr>head = 100, offset = 0, pinned = 0, snapshots = 0\<rparr>,
       calls = [GetLatestBlock]\<rparr>)"
  using setNextBlockTimestamp_checked [where t = 150 and N = testNode and w = "genesis 100"]
    setNextBlockTimestamp_checked [where t = 50 and N = testNode and w = "genesis 100"]
  by (simp add: test_defs render_defs)

text \<open>
  The claim as first stated covers every timestamp. The timestamp \<open>2\<^sup>5\<^sup>3\<close> is above the
  head, and the call fails in the conversion to a big number: nothing is pinned.
\<close>

theorem setNextBlockTimestamp_counterexample:
  "\<not> 2 ^ 53 - int (getLatestBlock testNode (node_state (genesis 100))) \<le> 0 \<and>
   setNextBlockTimestampAction testNode (2 ^ 53) (genesis 100) =
     (Inl (AssertionFailed ''Assertion failed''),
      \<lparr>node_state = \<lparr>head = 100, offset = 0, pinned = 0, snapshots = 0\<rparr>,
       calls = [GetLatestBlock]\<rparr>)"
  by (simp add: setNextBlockTimestampAction_def step_defs node_defs newBN_def test_defs)

subsection \<open>evm_mine\<close>

text \<open>
  C4, as amended. For every timestamp \<open>t\<close> below \<open>2\<^sup>5\<^sup>3\<close> in magnitude: \<open>mine(t)\<close> with
  \<open>t \<noteq> 0\<close> and \<open>t\<close> not above the head timestamp fails without mining, with an invalid
  input error when the head timestamp is below \<open>2\<^sup>5\<^sup>3\<close>; with \<open>t\<close> above the head
  timestamp, or with \<open>t = 0\<close>, it instructs the Node to mine exactly one block with
  timestamp \<open>t\<close> and returns the zero hex quantity \<open>0x0\<close>. With \<open>t = 0\<close> the head block is
  not read at all, and the empty parameter list is the case \<open>t = 0\<close>.
\<close>

theorem mine_checked:
  fixes N :: "'s node" and w :: "'s world"
  assumes "\<bar>t\<bar> < 2 ^ 53"
  defines "h \<equiv> getLatestBlock N (node_state w)"
  shows "(t \<noteq> 0 \<and> t \<le> int h \<longrightarrow>
            (\<exists>e. mineAction N t w = (Inl e, w\<lparr>calls := calls w @ [GetLatestBlock]\<rparr>)) \<and>
            (h < 2 ^ 53 \<longrightarrow>
               mineAction N t w =
                 (Inl (InvalidInputError
                    (''Timestamp '' @ number_toString t @
                     '' is lower than previous block's timestamp '' @ number_toString (int h))),
                  w\<lparr>calls := calls w @ [GetLatestBlock]\<rparr>))) \<and>
         (t \<noteq> 0 \<and> int h < t \<longrightarrow>
            mineAction N t w =
              (Inr ''0x0'',
               w\<lparr>node_state := mineEmptyBlock N t (node_state w),
                  calls := calls w @ [GetLatestBlock, MineEmptyBlock t]\<rparr>)) \<and>
         (t = 0 \<longrightarrow>
            mineAction N t w =
              (Inr ''0x0'',
               w\<lparr>node_state := mineEmptyBlock N 0 (node_state w),
                  calls := calls w @ [MineEmptyBlock 0]\<rparr>)) \<and>
         processRequest N ''evm_mine'' [] w =
           Some (Inr (RString ''0x0''),
            w\<lparr>node_state := mineEmptyBlock N 0 (node_state w),
               calls := calls w @ [MineEmptyBlock 0]\<rparr>)"
  using assms
  by (auto simp: mineAction_def step_defs node_defs newBN_safe toNumber_def
      lowerThanPrevious_def Let_def zero_quantity processRequest_def mineParams_def
      validateParams1_def t_number_def)

theorem mine_checked_witness:
  "\<bar>150 :: int\<bar> < 2 ^ 53 \<and> (150 :: int) \<noteq> 0 \<and>
   int (getLatestBlock testNode (node_state (genesis 100))) < 150 \<and>
   mineAction testNode 150 (genesis 100) =
     (Inr ''0x0'',
      \<lparr>node_state = \<lparr>head = 150, offset = 0, pinned = 0, snapshots = 0\<rparr>,
       calls = [GetLatestBlock, MineEmptyBlock 150]\<rparr>) \<and>
   \<bar>100 :: int\<bar> < 2 ^ 53 \<and> (100 :: int) \<noteq> 0 \<and>
   100 \<le> int (getLatestBlock testNode (node_state (genesis 100))) \<and>
   mineAction testNode 100 (genesis 100) =
     (Inl (InvalidInputError ''Timestamp 100 is lower than previous block's timestamp 100''),
      \<lparr>node_state = \<lparr>head = 100, offset = 0, pinned = 0, snapshots = 0\<rparr>,
       calls = [GetLatestBlock]\<rparr>) \<and>
   mineAction testNode 0 (genesis 100) =
     (Inr ''0x0'',
      \<lparr>node_state = \<lparr>head = 101, offset = 0, pinned = 0, snapshots = 0\<rparr>,
       calls = [MineEmptyBlock 0]\<rparr>)"
  using mine_checked [where t = 150 and N = testNode and w = "genesis 100"]
    mine_checked [where t = 100 and N = testNode and w = "genesis 100"]
    mine_checked [where t = 0 and N = testNode and w = "genesis 100"]
  by (simp add: test_defs render_defs)

text \<open>
  The claim as first stated covers every timestamp. The timestamp \<open>2\<^sup>5\<^sup>3\<close> is not zero and
  is above the head, and the call fails in the conversion to a big number: no block is
  mined.
\<close>

theorem mine_counterexample:
  "(2 ^ 53 :: int) \<noteq> 0 \<and>
   int (getLatestBlock testNode (node_state (genesis 100))) < 2 ^ 53 \<and>
   mineAction testNode (2 ^ 53) (genesis 100) =
     (Inl (AssertionFailed ''Assertion failed''),
      \<lparr>node_state = \<lparr>head = 100, offset = 0, pinned = 0, snapshots = 0\<rparr>,
       calls = [GetLatestBlock]\<rparr>)"
  by (simp add: mineAction_def step_defs node_defs newBN_def test_defs)

subsection \<open>evm_increaseTime\<close>

text \<open>
  C5, as amended. For every integer increment below \<open>2\<^sup>5\<^sup>3\<close> in magnitude,
  \<open>increaseTime(increment)\<close> instructs the Node to add the increment to its time offset,
  then reads the Node's total offset back and returns it as a decimal (not hex) string.
  In particular, on a Node whose \<open>increaseTime\<close> adds to the offset that
  \<open>getTimeIncrement\<close> reads, \<open>increaseTime(5)\<close> followed by \<open>increaseTime(10)\<close> on a fresh
  offset returns the string \<open>15\<close>.
\<close>

theorem increaseTime_reads_back:
  fixes N :: "'s node" and w :: "'s world"
  shows "(\<bar>increment\<bar> < 2 ^ 53 \<longrightarrow>
            increaseTimeAction N increment w =
              (Inr (int_toString 10 (getTimeIncrement N (increaseTime N increment (node_state w)))),
               w\<lparr>node_state := increaseTime N increment (node_state w),
                  calls := calls w @ [IncreaseTime increment, GetTimeIncrement]\<rparr>)) \<and>
         ((\<forall>i s. getTimeIncrement N (increaseTime N i s) = getTimeIncrement N s + i) \<and>
          getTimeIncrement N (node_state w) = 0 \<longrightarrow>
            fst (andThen (increaseTimeAction N 5) (\<lambda>_. increaseTimeAction N 10) w) =
              Inr ''15'')"
  by (auto simp: increaseTimeAction_def step_defs node_defs newBN_def bn_toString_def
      int_toString_def digit_char_def)

theorem increaseTime_reads_back_witness:
  "\<bar>5 :: int\<bar> < 2 ^ 53 \<and>
   increaseTimeAction testNode 5 (genesis 100) =
     (Inr ''5'',
      \<lparr>node_state = \<lparr>head = 100, offset = 5, pinned = 0, snapshots = 0\<rparr>,
       calls = [IncreaseTime 5, GetTimeIncrement]\<rparr>) \<and>
   getTimeIncrement testNode (node_state (genesis 100)) = 0 \<and>
   fst (andThen (increaseTimeAction testNode 5) (\<lambda>_. increaseTimeAction testNode 10)
          (genesis 100)) = Inr ''15''"
  using increaseTime_reads_back [where increment = 5 and N = testNode and w = "genesis 100"]
  by (simp add: test_defs render_defs)

text \<open>
  The claim as first stated covers every integer. With the increment \<open>2\<^sup>5\<^sup>3\<close> the call
  fails in the conversion to a big number, before the Node is asked for anything.
\<close>

theorem increaseTime_counterexample:
  "increaseTimeAction testNode (2 ^ 53) (genesis 100) =
     (Inl (AssertionFailed ''Assertion failed''),
      \<lparr>node_state = \<lparr>head = 100, offset = 0, pinned = 0, snapshots = 0\<rparr>, calls = []\<rparr>)"
  by (simp add: increaseTimeAction_def step_defs newBN_def test_defs)

subsection \<open>Unknown methods\<close>

text \<open>
  C6. For every method name outside the six supported names and every parameter list,
  \<open>processRequest\<close> fails with a method-not-found error whose message carries the
  offending name, and the Node is left as it was: no call is made to it.
\<close>

theorem unknown_method:
  fixes N :: "'s node" and w :: "'s world"
  assumes "name \<notin> {''evm_increaseTime'', ''evm_setNextBlockTimestamp'', ''evm_mine'',
              ''evm_mineMultiple'', ''evm_revert'', ''evm_snapshot''}"
  shows "processRequest N name params w =
           Some (Inl (MethodNotFoundError (''Method '' @ name @ '' not found'')), w)"
  using assms by (simp add: processRequest_def throw_def returns_def)

theorem unknown_method_witness:
  "''evm_bogus'' \<notin> {''evm_increaseTime'', ''evm_setNextBlockTimestamp'', ''evm_mine'',
      ''evm_mineMultiple'', ''evm_revert'', ''evm_snapshot''} \<and>
   processRequest testNode ''evm_bogus'' [] (genesis 100) =
     Some (Inl (MethodNotFoundError ''Method evm_bogus not found''),
      \<lparr>node_state = \<lparr>head = 100, offset = 0, pinned = 0, snapshots = 0\<rparr>, calls = []\<rparr>)"
  using unknown_method [where name = "''evm_bogus''" and N = testNode and params = "[]"
      and w = "genesis 100"]
  by (simp add: test_defs)

subsection \<open>evm_revert\<close>

text \<open>
  C7, as amended. For every snapshot id below \<open>2\<^sup>5\<^sup>3\<close> in magnitude, \<open>revert(snapshotId)\<close>
  asks the Node to restore that snapshot, with this one call, and returns the Node's
  boolean unchanged; so does \<open>processRequest\<close> on \<open>evm_revert\<close> with exactly one
  argument that is the quantity of such an id.
\<close>

theorem revert_passes_through:
  fixes N :: "'s node" and w :: "'s world"
  assumes "\<bar>snapshotId\<bar> < 2 ^ 53"
  shows "revertAction N snapshotId w =
           (Inr (fst (revertToSnapshot N snapshotId (node_state w))),
            w\<lparr>node_state := snd (revertToSnapshot N snapshotId (node_state w)),
               calls := calls w @ [RevertToSnapshot snapshotId]\<rparr>) \<and>
         (rpcQuantity p = Some snapshotId \<longrightarrow>
            processRequest N ''evm_revert'' [p] w =
              Some (Inr (RBoolean (fst (revertToSnapshot N snapshotId (node_state w)))),
               w\<lparr>node_state := snd (revertToSnapshot N snapshotId (node_state w)),
                  calls := calls w @ [RevertToSnapshot snapshotId]\<rparr>))"
  using assms
  by (simp add: processRequest_def revertParams_def validateParams1_def revertAction_def
      step_defs node_defs toNumber_def split: prod.split)

theorem revert_passes_through_witness:
  "\<bar>1 :: int\<bar> < 2 ^ 53 \<and> rpcQuantity (JString ''0x1'') = Some 1 \<and>
   revertAction testNode 1 (genesis 100) =
     (Inr False,
      \<lparr>node_state = \<lparr>head = 100, offset = 0, pinned = 0, snapshots = 0\<rparr>,
       calls = [RevertToSnapshot 1]\<rparr>) \<and>
   processRequest testNode ''evm_revert'' [JString ''0x1''] (genesis 100) =
     Some (Inr (RBoolean False),
      \<lparr>node_state = \<lparr>head = 100, offset = 0, pinned = 0, snapshots = 0\<rparr>,
       calls = [RevertToSnapshot 1]\<rparr>)"
  using revert_passes_through [where snapshotId = 1 and N = testNode and w = "genesis 100"
      and p = "JString ''0x1''"] quantity_1
  by (simp add: test_defs)

text \<open>
  The claim as first stated covers every snapshot id. The quantity \<open>0x20000000000000\<close> is
  one quantity-typed argument, the id \<open>2\<^sup>5\<^sup>3\<close>; the call fails in the conversion to a
  number and the Node is not asked to restore anything.
\<close>

theorem revert_counterexample:
  "rpcQuantity (JString ''0x20000000000000'') = Some (2 ^ 53) \<and>
   processRequest testNode ''evm_revert'' [JString ''0x20000000000000''] (genesis 100) =
     Some (Inl (AssertionFailed ''Number can only safely store up to 53 bits''),
      \<lparr>node_state = \<lparr>head = 100, offset = 0, pinned = 0, snapshots = 0\<rparr>, calls = []\<rparr>)"
  by (simp add: quantity_2_53 processRequest_def revertParams_def validateParams1_def
      revertAction_def step_defs toNumber_def test_defs)

text \<open>
  C10. For every snapshot id of \<open>2\<^sup>5\<^sup>3\<close> or more, \<open>revert\<close> fails in the conversion of the
  decoded quantity to a number, with the assertion of \<^verbatim>\<open>toNumber\<close>, and the world is as
  before: the Node's \<open>revertToSnapshot\<close> is never called, with a truncated id or any
  other.
\<close>

theorem revert_unsafe_id:
  fixes N :: "'s node" and w :: "'s world"
  assumes "2 ^ 53 \<le> snapshotId"
  shows "revertAction N snapshotId w =
           (Inl (AssertionFailed ''Number can only safely store up to 53 bits''), w) \<and>
         (rpcQuantity p = Some snapshotId \<longrightarrow>
            processRequest N ''evm_revert'' [p] w =
              Some (Inl (AssertionFailed ''Number can only safely store up to 53 bits''), w))"
  using assms
  by (simp add: processRequest_def revertParams_def validateParams1_def revertAction_def
      step_defs toNumber_def)

theorem revert_unsafe_id_witness:
  "(2 ^ 53 :: int) \<le> 2 ^ 53 + 1 \<and>
   rpcQuantity (JString ''0x20000000000001'') = Some (2 ^ 53 + 1) \<and>
   revertAction testNode (2 ^ 53 + 1) (genesis 100) =
     (Inl (AssertionFailed ''Number can only safely store up to 53 bits''),
      \<lparr>node_state = \<lparr>head = 100, offset = 0, pinned = 0, snapshots = 0\<rparr>, calls = []\<rparr>) \<and>
   processRequest testNode ''evm_revert'' [JString ''0x20000000000001''] (genesis 100) =
     Some (Inl (AssertionFailed ''Number can only safely store up to 53 bits''),
      \<lparr>node_state = \<lparr>head = 100, offset = 0, pinned = 0, snapshots = 0\<rparr>, calls = []\<rparr>)"
  using revert_unsafe_id [where snapshotId = "2 ^ 53 + 1" and N = testNode
      and w = "genesis 100" and p = "JString ''0x20000000000001''"] quantity_2_53_1
  by (simp add: test_defs)

subsection \<open>evm_snapshot\<close>

text \<open>
  C8. The snapshot request accepts no arguments: every non-empty parameter list is to
  be refused with an invalid input error and no call to the Node. The source does not do
  so. \<open>snapshotParams\<close> is the only parameter method that never validates, and with
  the one parameter \<open>3\<close> the request succeeds and the Node has taken a snapshot.
\<close>

theorem snapshot_surplus_argument:
  "processRequest testNode ''evm_snapshot'' [JNumber 3] (genesis 100) =
     Some (Inr (RString ''0x1''),
      \<lparr>node_state = \<lparr>head = 100, offset = 0, pinned = 0, snapshots = 1\<rparr>,
       calls = [TakeSnapshot]\<rparr>)"
  by (simp add: processRequest_def snapshotParams_def snapshotAction_def step_defs node_defs
      numberToRpcQuantity_def digit_char_def test_defs)

subsection \<open>evm_mineMultiple without parameters\<close>

text \<open>
  C9. \<open>processRequest\<close> on \<open>evm_mineMultiple\<close> with the empty parameter list always
  fails with an invalid input error and makes no call to the Node: the defaults are
  \<open>0\<close> iterations and the empty list of timestamps, and the check that the iterations
  are above zero rejects them.
\<close>

theorem mineMultiple_no_params:
  fixes N :: "'s node" and w :: "'s world"
  shows "mineMultipleParams [] = Inr (0, []) \<and>
         processRequest N ''evm_mineMultiple'' [] w =
           Some (Inl (InvalidInputError ''Invalid iterations number, it must be greater than 0''),
             w)"
  by (simp add: processRequest_def mineMultipleParams_def validateParams2_def t_number_def
      t_Array_def mineMultipleAction_def assertTimestamps_def step_defs)

theorem mineMultiple_no_params_witness:
  "processRequest testNode ''evm_mineMultiple'' [] (genesis 100) =
     Some (Inl (InvalidInputError ''Invalid iterations number, it must be greater than 0''),
      \<lparr>node_state = \<lparr>head = 100, offset = 0, pinned = 0, snapshots = 0\<rparr>, calls = []\<rparr>)"
  using mineMultiple_no_params [where N = testNode and w = "genesis 100"]
  by (simp add: test_defs)

end
